theory Spec2Isabelle
  imports Complex_Main
begin

section \<open>The Spotify proxy worker (src/src/index.ts)\<close>

text \<open>
  The worker is a set of asynchronous route handlers over a Cloudflare KV namespace and
  the Spotify Web API. Each handler is embedded as a function from the runtime of one
  request (clock, JSON built-ins, upstream answers, random draws), the request and the
  world (KV contents plus the sequence of effects performed so far) to an outcome and the
  new world. A rejected promise is the left injection of the outcome.
\<close>

subsection \<open>JavaScript values\<close>

text \<open>
  What \<open>JSON.parse\<close> and \<open>response.json()\<close> produce. An object is kept as the list of
  its properties. \<open>undefined\<close> is \<open>None\<close> of \<open>json option\<close>.
\<close>

datatype json =
    JNull
  | JBool bool
  | JNum real
  | JStr string
  | JArr "json list"
  | JObj "(string \<times> json) list"

text \<open>Truthiness, as \<open>if (v)\<close>, \<open>!v\<close> and \<open>v ? a : b\<close> test it.\<close>

fun truthy :: "json \<Rightarrow> bool" where
  "truthy JNull = False"
| "truthy (JBool b) = b"
| "truthy (JNum r) = (r \<noteq> 0)"
| "truthy (JStr s) = (s \<noteq> [])"
| "truthy (JArr xs) = True"
| "truthy (JObj kvs) = True"

text \<open>Truthiness of a value that is a string or \<open>null\<close> (\<open>URLSearchParams.get\<close>,
  \<open>FormData.get\<close>, \<open>KVNamespace.get\<close>).\<close>

fun truthy_str :: "string option \<Rightarrow> bool" where
  "truthy_str None = False"
| "truthy_str (Some s) = (s \<noteq> [])"

text \<open>Property read \<open>v.k\<close> on a value that is not \<open>null\<close>; only own properties of objects
  are modelled, every other read is \<open>undefined\<close>.\<close>

fun get_prop :: "json \<Rightarrow> string \<Rightarrow> json option" where
  "get_prop (JObj kvs) k = map_of kvs k"
| "get_prop v k = None"

fun join_comma :: "string list \<Rightarrow> string" where
  "join_comma [] = []"
| "join_comma [s] = s"
| "join_comma (s # t # ss) = s @ '','' @ join_comma (t # ss)"

text \<open>String conversion of a template literal \<open>`${v}`\<close>; the printing of numbers is a
  parameter.\<close>

fun js_String :: "(real \<Rightarrow> string) \<Rightarrow> json \<Rightarrow> string" where
  "js_String num JNull = ''null''"
| "js_String num (JBool b) = (if b then ''true'' else ''false'')"
| "js_String num (JNum r) = num r"
| "js_String num (JStr s) = s"
| "js_String num (JArr xs) =
     join_comma (map (\<lambda>x. if x = JNull then [] else js_String num x) xs)"
| "js_String num (JObj kvs) = ''[object Object]''"

fun template :: "(real \<Rightarrow> string) \<Rightarrow> json option \<Rightarrow> string" where
  "template num None = ''undefined''"
| "template num (Some v) = js_String num v"

subsection \<open>The KV namespace, upstream calls and the world\<close>

text \<open>
  A KV entry is its text and, when it was written with \<open>expirationTtl\<close>, the second at
  which it expires. A read of an expired key gives \<open>null\<close>, as a read of a missing one.
\<close>

type_synonym kv_entry = "string \<times> nat option"
type_synonym kv_store = "string \<Rightarrow> kv_entry option"

text \<open>The arguments of the two upstream requests the worker builds:
  \<open>POST https://accounts.spotify.com/api/token\<close> with the form body
  (\<open>grant_type=authorization_code\<close>, code, redirect uri) and Basic authentication from
  client id and secret; \<open>GET https://api.spotify.com<endpoint>\<close> with a Bearer token.\<close>

datatype upstream_call =
    TokenRequest string string "json option" "json option"
  | ApiRequest string "json option"

record fetch_response =
  fstatus :: nat
  statusText :: string
  json_body :: "json option"

text \<open>\<open>response.ok\<close>: the status is in the range 200..299.\<close>

definition ok :: "fetch_response \<Rightarrow> bool" where
  "ok r = (200 \<le> fstatus r \<and> fstatus r \<le> 299)"

datatype effect =
    KVGet string
  | KVPut string string "nat option"
  | KVDelete string
  | Fetch upstream_call

record world =
  kv :: kv_store
  trace :: "effect list"

text \<open>What one invocation gets from its environment. \<open>JSON_parse\<close>, \<open>global_fetch\<close> and
  \<open>json_body\<close> are \<open>None\<close> where the built-in throws or rejects.\<close>

record runtime =
  now :: nat
  JSON_parse :: "string \<Rightarrow> json option"
  JSON_stringify :: "json \<Rightarrow> string"
  JSON_stringify_pretty :: "json \<Rightarrow> string"
  Number_toString :: "real \<Rightarrow> string"
  global_fetch :: "upstream_call \<Rightarrow> fetch_response option"
  Math_random :: "nat \<Rightarrow> real"
  toISOString :: string
  ENVIRONMENT :: string

datatype exn = SyntaxError | FetchError

type_synonym 'a io = "(exn + 'a) \<times> world"

definition bind_io :: "'a io \<Rightarrow> ('a \<Rightarrow> world \<Rightarrow> 'b io) \<Rightarrow> 'b io" where
  "bind_io m f = (case m of (Inl e, w) \<Rightarrow> (Inl e, w) | (Inr x, w) \<Rightarrow> f x w)"

definition live :: "nat \<Rightarrow> kv_entry \<Rightarrow> bool" where
  "live t e = (case snd e of None \<Rightarrow> True | Some x \<Rightarrow> t < x)"

definition kv_read :: "runtime \<Rightarrow> kv_store \<Rightarrow> string \<Rightarrow> string option" where
  "kv_read rt m k =
     (case m k of None \<Rightarrow> None | Some e \<Rightarrow> if live (now rt) e then Some (fst e) else None)"

definition kv_get :: "runtime \<Rightarrow> string \<Rightarrow> world \<Rightarrow> string option io" where
  "kv_get rt k w = (Inr (kv_read rt (kv w) k), w\<lparr>trace := trace w @ [KVGet k]\<rparr>)"

definition kv_put :: "runtime \<Rightarrow> string \<Rightarrow> string \<Rightarrow> nat option \<Rightarrow> world \<Rightarrow> unit io" where
  "kv_put rt k v ttl w =
     (Inr (), w\<lparr>kv := (kv w)(k \<mapsto> (v, map_option (\<lambda>t. now rt + t) ttl)),
                trace := trace w @ [KVPut k v ttl]\<rparr>)"

definition kv_delete :: "string \<Rightarrow> world \<Rightarrow> unit io" where
  "kv_delete k w = (Inr (), w\<lparr>kv := (kv w)(k := None), trace := trace w @ [KVDelete k]\<rparr>)"

definition do_fetch :: "runtime \<Rightarrow> upstream_call \<Rightarrow> world \<Rightarrow> fetch_response io" where
  "do_fetch rt c w =
     (case global_fetch rt c of
        None \<Rightarrow> (Inl FetchError, w\<lparr>trace := trace w @ [Fetch c]\<rparr>)
      | Some r \<Rightarrow> (Inr r, w\<lparr>trace := trace w @ [Fetch c]\<rparr>))"

subsection \<open>Requests and responses\<close>

text \<open>A request: \<open>request.method\<close> (here \<open>http_method\<close>), the origin, path and query of
  \<open>new URL(request.url)\<close>, and the fields of \<open>request.formData()\<close> (\<open>None\<close> where
  reading the form rejects).\<close>

record request =
  http_method :: string
  origin :: string
  pathname :: string
  searchParams :: "(string \<times> string) list"
  formData :: "(string \<times> string) list option"

text \<open>The HTML pages are presentation; a page is kept as its name and the values
  interpolated into it.\<close>

datatype page =
    RootPage string string string
  | SetupPage
  | CredentialsPage "string option" string
  | OAuthSuccessPage

datatype body = NoBody | Text string | Html page

record response =
  status :: nat
  headers :: "(string \<times> string) list"
  body :: body

definition corsHeaders :: "(string \<times> string) list" where
  "corsHeaders =
     [(''Access-Control-Allow-Origin'', ''*''),
      (''Access-Control-Allow-Methods'', ''GET, POST, PUT, DELETE, OPTIONS''),
      (''Access-Control-Allow-Headers'', ''Content-Type, Authorization'')]"

definition html_headers :: "(string \<times> string) list" where
  "html_headers = (''Content-Type'', ''text/html'') # corsHeaders"

definition json_headers :: "(string \<times> string) list" where
  "json_headers = (''Content-Type'', ''application/json'') # corsHeaders"

text \<open>\<open>Response.redirect(url, 302)\<close>: a response whose only header is \<open>Location\<close>; the
  URL is kept as the handler wrote it.\<close>

definition redirect :: "string \<Rightarrow> response" where
  "redirect url = \<lparr>status = 302, headers = [(''Location'', url)], body = NoBody\<rparr>"

subsection \<open>Utility functions\<close>

definition charset :: string where
  "charset = ''ABCDEFGHIJKLMNOPQRSTUVWXYZabcdefghijklmnopqrstuvwxyz0123456789''"

text \<open>\<open>s.charAt(i)\<close>: the empty string when the index is out of range.\<close>

definition charAt :: "string \<Rightarrow> int \<Rightarrow> string" where
  "charAt s i = (if 0 \<le> i \<and> i < int (length s) then [s ! nat i] else [])"

text \<open>The loop of \<open>generateRandomString\<close>; \<open>rnd i\<close> is what the \<open>i\<close>-th call of
  \<open>Math.random()\<close> returns.\<close>

function generateRandomString_loop :: "(nat \<Rightarrow> real) \<Rightarrow> nat \<Rightarrow> nat \<Rightarrow> string \<Rightarrow> string" where
  "generateRandomString_loop rnd len i result =
     (if i < len
      then generateRandomString_loop rnd len (Suc i)
             (result @ charAt charset \<lfloor>rnd i * real (length charset)\<rfloor>)
      else result)"
  by pat_completeness auto
termination
  by (relation "measure (\<lambda>(rnd, len, i, result). len - i)") auto

declare generateRandomString_loop.simps [simp del]

definition generateRandomString :: "(nat \<Rightarrow> real) \<Rightarrow> nat \<Rightarrow> string" where
  "generateRandomString rnd len = generateRandomString_loop rnd len 0 []"

text \<open>The character class \<open>[a-zA-Z0-9]\<close>, by character code.\<close>

definition is_alnum :: "char \<Rightarrow> bool" where
  "is_alnum c =
     (let n = (of_char c :: nat) in
      (97 \<le> n \<and> n \<le> 122) \<or> (65 \<le> n \<and> n \<le> 90) \<or> (48 \<le> n \<and> n \<le> 57))"

text \<open>\<open>encodeURIComponent\<close> on a string of UTF-8 bytes: the unreserved characters stay,
  every other byte becomes \<open>%XX\<close>.\<close>

definition uri_unreserved :: "char \<Rightarrow> bool" where
  "uri_unreserved c = (is_alnum c \<or> c \<in> set ''-_.!~*()'' \<or> c = CHR 0x27)"

definition hex_digit :: "nat \<Rightarrow> char" where
  "hex_digit n = ''0123456789ABCDEF'' ! (n mod 16)"

definition encode_byte :: "char \<Rightarrow> string" where
  "encode_byte c =
     (if uri_unreserved c then [c]
      else [CHR ''%'', hex_digit (of_char c div 16), hex_digit (of_char c mod 16)])"

definition encodeURIComponent :: "string \<Rightarrow> string" where
  "encodeURIComponent s = concat (map encode_byte s)"

text \<open>\<open>id.match(/^[a-zA-Z0-9]+$/)\<close> as a truth value.\<close>

definition match_alnum :: "string \<Rightarrow> bool" where
  "match_alnum s = (s \<noteq> [] \<and> list_all is_alnum s)"

definition parse_stored :: "runtime \<Rightarrow> string option \<Rightarrow> world \<Rightarrow> json io" where
  "parse_stored rt j w =
     (if truthy_str j
      then (case JSON_parse rt (the j) of None \<Rightarrow> (Inl SyntaxError, w) | Some v \<Rightarrow> (Inr v, w))
      else (Inr JNull, w))"

definition getStoredCredentials :: "runtime \<Rightarrow> world \<Rightarrow> json io" where
  "getStoredCredentials rt w =
     bind_io (kv_get rt ''spotify_credentials'' w) (parse_stored rt)"

definition getStoredTokens :: "runtime \<Rightarrow> world \<Rightarrow> json io" where
  "getStoredTokens rt w =
     bind_io (kv_get rt ''spotify_tokens'' w) (parse_stored rt)"

definition callSpotifyAPI :: "runtime \<Rightarrow> string \<Rightarrow> json option \<Rightarrow> world \<Rightarrow> fetch_response io" where
  "callSpotifyAPI rt endpoint accessToken w = do_fetch rt (ApiRequest endpoint accessToken) w"

text \<open>The result object of \<open>exchangeCodeForTokens\<close>: \<open>{success: false, error}\<close> or
  \<open>{success: true, data}\<close>.\<close>

datatype token_result = Failure string | Success json

definition exchangeCodeForTokens :: "runtime \<Rightarrow> string \<Rightarrow> request \<Rightarrow> world \<Rightarrow> token_result io" where
  "exchangeCodeForTokens rt code rq w =
     (let redirectUri = origin rq @ ''/callback'' in
      bind_io (getStoredCredentials rt w) (\<lambda>credentials w1.
        if \<not> truthy credentials
        then (Inr (Failure ''No Spotify credentials found. Please complete setup first.''), w1)
        else
          bind_io (do_fetch rt (TokenRequest code redirectUri
                     (get_prop credentials ''client_id'')
                     (get_prop credentials ''client_secret'')) w1) (\<lambda>response w2.
            if \<not> ok response
            then (Inr (Failure (''Token exchange failed: '' @ statusText response)), w2)
            else (case json_body response of
                    None \<Rightarrow> (Inl SyntaxError, w2)
                  | Some data \<Rightarrow> (Inr (Success data), w2)))))"

subsection \<open>Route handlers\<close>

text \<open>The status block of \<open>handleRoot\<close>: \<open>setupStatus\<close>, \<open>nextAction\<close> and
  \<open>nextActionText\<close>, from the truthiness of the two stored records.\<close>

definition setupStatus :: "bool \<Rightarrow> bool \<Rightarrow> string \<times> string \<times> string" where
  "setupStatus storedCredentials storedTokens =
     (if storedCredentials
      then (if storedTokens
            then (''complete'', ''/now-playing'', ''View Now Playing'')
            else (''credentials_only'', ''/setup'', ''Connect Spotify Account''))
      else (''not_started'', ''/credentials'', ''Setup Credentials''))"

definition handleRoot :: "runtime \<Rightarrow> request \<Rightarrow> world \<Rightarrow> response io" where
  "handleRoot rt rq w =
     bind_io (getStoredCredentials rt w) (\<lambda>storedCredentials w1.
     bind_io (getStoredTokens rt w1) (\<lambda>storedTokens w2.
       (case setupStatus (truthy storedCredentials) (truthy storedTokens) of
          (st, nextAction, nextActionText) \<Rightarrow>
            (Inr \<lparr>status = 200, headers = html_headers,
                  body = Html (RootPage st nextAction nextActionText)\<rparr>, w2))))"

definition handleSetup :: "runtime \<Rightarrow> request \<Rightarrow> world \<Rightarrow> response io" where
  "handleSetup rt rq w =
     bind_io (getStoredCredentials rt w) (\<lambda>storedCredentials w1.
       if \<not> truthy storedCredentials
       then (Inr (redirect (origin rq @ ''/credentials'')), w1)
       else if http_method rq = ''POST''
       then
         (let redirectUri = origin rq @ ''/callback'';
              scope = ''user-read-currently-playing user-read-recently-played user-read-playback-state'';
              state = generateRandomString (Math_random rt) 16
          in bind_io (kv_put rt (''oauth_state_'' @ state) ''pending'' (Some 600) w1) (\<lambda>u w2.
               (Inr (redirect
                  (''https://accounts.spotify.com/authorize?'' @
                   ''response_type=code&'' @
                   ''client_id='' @
                     template (Number_toString rt) (get_prop storedCredentials ''client_id'') @ ''&'' @
                   ''scope='' @ encodeURIComponent scope @ ''&'' @
                   ''redirect_uri='' @ encodeURIComponent redirectUri @ ''&'' @
                   ''state='' @ state)), w2)))
       else (Inr \<lparr>status = 200, headers = html_headers, body = Html SetupPage\<rparr>, w1))"

definition handleCredentials :: "runtime \<Rightarrow> request \<Rightarrow> world \<Rightarrow> response io" where
  "handleCredentials rt rq w =
     (if http_method rq = ''POST''
      then
        (case formData rq of
           None \<Rightarrow>
             (Inr \<lparr>status = 500, headers = html_headers,
                   body = Html (CredentialsPage
                            (Some ''Error processing credentials. Please try again.'')
                            (origin rq))\<rparr>, w)
         | Some form \<Rightarrow>
             (let clientId = map_of form ''client_id'';
                  clientSecret = map_of form ''client_secret''
              in if \<not> truthy_str clientId \<or> \<not> truthy_str clientSecret
                 then (Inr \<lparr>status = 400, headers = html_headers,
                             body = Html (CredentialsPage
                                      (Some ''Please provide both Client ID and Client Secret'')
                                      (origin rq))\<rparr>, w)
                 else if length (the clientId) < 30 \<or> \<not> match_alnum (the clientId)
                 then (Inr \<lparr>status = 400, headers = html_headers,
                             body = Html (CredentialsPage
                                      (Some ''Invalid Client ID format. Please check your Spotify app credentials.'')
                                      (origin rq))\<rparr>, w)
                 else
                   (let credentials =
                          JObj [(''client_id'', JStr (the clientId)),
                                (''client_secret'', JStr (the clientSecret)),
                                (''created_at'', JStr (toISOString rt))]
                    in bind_io (kv_put rt ''spotify_credentials''
                                  (JSON_stringify rt credentials) None w) (\<lambda>u w1.
                         (Inr (redirect (origin rq @ ''/setup'')), w1)))))
      else (Inr \<lparr>status = 200, headers = html_headers,
                  body = Html (CredentialsPage None (origin rq))\<rparr>, w))"

definition handleCallback :: "runtime \<Rightarrow> request \<Rightarrow> world \<Rightarrow> response io" where
  "handleCallback rt rq w =
     (let code = map_of (searchParams rq) ''code'';
          state = map_of (searchParams rq) ''state'';
          error = map_of (searchParams rq) ''error''
      in if truthy_str error
         then (Inr \<lparr>status = 400, headers = [], body = Text (''OAuth Error: '' @ the error)\<rparr>, w)
         else if \<not> truthy_str code \<or> \<not> truthy_str state
         then (Inr \<lparr>status = 400, headers = [],
                     body = Text ''Missing authorization code or state''\<rparr>, w)
         else
           bind_io (kv_get rt (''oauth_state_'' @ the state) w) (\<lambda>storedState w1.
             if \<not> truthy_str storedState
             then (Inr \<lparr>status = 400, headers = [],
                         body = Text ''Invalid or expired state parameter''\<rparr>, w1)
             else
               bind_io (exchangeCodeForTokens rt (the code) rq w1) (\<lambda>tokenResponse w2.
                 (case tokenResponse of
                    Failure err \<Rightarrow>
                      (Inr \<lparr>status = 400, headers = [],
                            body = Text (''Token exchange failed: '' @ err)\<rparr>, w2)
                  | Success data \<Rightarrow>
                      bind_io (kv_put rt ''spotify_tokens'' (JSON_stringify rt data)
                                 (Some 3600) w2) (\<lambda>u w3.
                      bind_io (kv_delete (''oauth_state_'' @ the state) w3) (\<lambda>u w4.
                        (Inr \<lparr>status = 200, headers = html_headers,
                              body = Html OAuthSuccessPage\<rparr>, w4)))))))"

definition no_tokens_response :: "runtime \<Rightarrow> response" where
  "no_tokens_response rt =
     \<lparr>status = 401, headers = json_headers,
      body = Text (JSON_stringify rt
               (JObj [(''error'',
                  JStr ''No valid tokens found. Please complete OAuth setup first.'')]))\<rparr>"

definition handleNowPlaying :: "runtime \<Rightarrow> request \<Rightarrow> world \<Rightarrow> response io" where
  "handleNowPlaying rt rq w =
     bind_io (getStoredTokens rt w) (\<lambda>tokens w1.
       if \<not> truthy tokens
       then (Inr (no_tokens_response rt), w1)
       else
         bind_io (callSpotifyAPI rt ''/v1/me/player/currently-playing''
                    (get_prop tokens ''access_token'') w1) (\<lambda>spotifyResponse w2.
           if fstatus spotifyResponse = 204
           then (Inr \<lparr>status = 200, headers = json_headers,
                       body = Text (JSON_stringify rt
                                (JObj [(''playing'', JBool False),
                                       (''message'', JStr ''No track currently playing'')]))\<rparr>, w2)
           else if \<not> ok spotifyResponse
           then (Inr \<lparr>status = fstatus spotifyResponse, headers = json_headers,
                       body = Text (JSON_stringify rt
                                (JObj [(''error'', JStr ''Failed to fetch current track'')]))\<rparr>, w2)
           else (case json_body spotifyResponse of
                   None \<Rightarrow> (Inl SyntaxError, w2)
                 | Some data \<Rightarrow>
                     (Inr \<lparr>status = 200, headers = json_headers,
                           body = Text (JSON_stringify rt data)\<rparr>, w2))))"

definition handleRecent :: "runtime \<Rightarrow> request \<Rightarrow> world \<Rightarrow> response io" where
  "handleRecent rt rq w =
     bind_io (getStoredTokens rt w) (\<lambda>tokens w1.
       if \<not> truthy tokens
       then (Inr (no_tokens_response rt), w1)
       else
         bind_io (callSpotifyAPI rt ''/v1/me/player/recently-played?limit=10''
                    (get_prop tokens ''access_token'') w1) (\<lambda>spotifyResponse w2.
           if \<not> ok spotifyResponse
           then (Inr \<lparr>status = fstatus spotifyResponse, headers = json_headers,
                       body = Text (JSON_stringify rt
                                (JObj [(''error'', JStr ''Failed to fetch recent tracks'')]))\<rparr>, w2)
           else (case json_body spotifyResponse of
                   None \<Rightarrow> (Inl SyntaxError, w2)
                 | Some data \<Rightarrow>
                     (Inr \<lparr>status = 200, headers = json_headers,
                           body = Text (JSON_stringify rt data)\<rparr>, w2))))"

text \<open>The \<open>health\<close> object of \<open>handleHealth\<close>, from \<open>hasValidCredentials\<close> and
  \<open>hasValidTokens\<close>.\<close>

definition health :: "runtime \<Rightarrow> bool \<Rightarrow> bool \<Rightarrow> json" where
  "health rt hasValidCredentials hasValidTokens =
     JObj [(''status'', JStr ''healthy''),
           (''timestamp'', JStr (toISOString rt)),
           (''environment'', JStr (if ENVIRONMENT rt \<noteq> [] then ENVIRONMENT rt else ''unknown'')),
           (''credentials_configured'', JBool hasValidCredentials),
           (''oauth_configured'', JBool hasValidTokens),
           (''setup_complete'', JBool (hasValidCredentials \<and> hasValidTokens)),
           (''next_step'', JStr
              (if \<not> hasValidCredentials then ''Configure Spotify credentials at /credentials''
               else if \<not> hasValidTokens then ''Complete OAuth setup at /setup''
               else ''Ready to use API endpoints'')),
           (''endpoints'', JObj
              [(''home'', JStr ''/''),
               (''credentials'', JStr ''/credentials''),
               (''setup'', JStr ''/setup''),
               (''callback'', JStr ''/callback''),
               (''now_playing'', JStr ''/now-playing''),
               (''recent'', JStr ''/recent''),
               (''health'', JStr ''/health'')])]"

definition handleHealth :: "runtime \<Rightarrow> request \<Rightarrow> world \<Rightarrow> response io" where
  "handleHealth rt rq w =
     bind_io (getStoredCredentials rt w) (\<lambda>credentials w1.
     bind_io (getStoredTokens rt w1) (\<lambda>tokens w2.
       (let hasValidCredentials = (credentials \<noteq> JNull);
            hasValidTokens = (tokens \<noteq> JNull)
        in (Inr \<lparr>status = 200, headers = json_headers,
                  body = Text (JSON_stringify_pretty rt
                           (health rt hasValidCredentials hasValidTokens))\<rparr>, w2))))"

subsection \<open>The dispatcher\<close>

text \<open>
  The \<open>fetch\<close> entry point. Each handler's promise is returned from inside the \<open>try\<close>
  block without being awaited, so a rejection of it passes the \<open>catch\<close> clause by and
  rejects the promise of \<open>fetch\<close> itself: the outcome of the handler is the outcome of
  the dispatcher.
\<close>

definition fetch :: "runtime \<Rightarrow> request \<Rightarrow> world \<Rightarrow> response io" where
  "fetch rt rq w =
     (if http_method rq = ''OPTIONS''
      then (Inr \<lparr>status = 200, headers = corsHeaders, body = NoBody\<rparr>, w)
      else if pathname rq = ''/'' then handleRoot rt rq w
      else if pathname rq = ''/setup'' then handleSetup rt rq w
      else if pathname rq = ''/credentials'' then handleCredentials rt rq w
      else if pathname rq = ''/callback'' then handleCallback rt rq w
      else if pathname rq = ''/now-playing'' then handleNowPlaying rt rq w
      else if pathname rq = ''/recent'' then handleRecent rt rq w
      else if pathname rq = ''/health'' then handleHealth rt rq w
      else (Inr \<lparr>status = 404, headers = corsHeaders, body = Text ''Not Found''\<rparr>, w))"

subsection \<open>The setup status of the specification\<close>

text \<open>
  The three values of section 4.1 and its table, written from the specification's words:
  no credentials is \<open>NOT_STARTED\<close>; credentials without tokens is \<open>CREDENTIALS_ONLY\<close>;
  both is \<open>COMPLETE\<close>. \<open>status_name\<close>, \<open>next_action\<close> and \<open>next_step\<close> give, for each
  value, the label and link the root page shows and the sentence the health report gives.
\<close>

datatype setup_state = NOT_STARTED | CREDENTIALS_ONLY | COMPLETE

definition status_spec :: "bool \<Rightarrow> bool \<Rightarrow> setup_state" where
  "status_spec credentials_present tokens_present =
     (if credentials_present
      then (if tokens_present then COMPLETE else CREDENTIALS_ONLY)
      else NOT_STARTED)"

fun status_name :: "setup_state \<Rightarrow> string" where
  "status_name NOT_STARTED = ''not_started''"
| "status_name CREDENTIALS_ONLY = ''credentials_only''"
| "status_name COMPLETE = ''complete''"

fun next_action :: "setup_state \<Rightarrow> string \<times> string" where
  "next_action NOT_STARTED = (''/credentials'', ''Setup Credentials'')"
| "next_action CREDENTIALS_ONLY = (''/setup'', ''Connect Spotify Account'')"
| "next_action COMPLETE = (''/now-playing'', ''View Now Playing'')"

fun next_step :: "setup_state \<Rightarrow> string" where
  "next_step NOT_STARTED = ''Configure Spotify credentials at /credentials''"
| "next_step CREDENTIALS_ONLY = ''Complete OAuth setup at /setup''"
| "next_step COMPLETE = ''Ready to use API endpoints''"

text \<open>A stored record as the worker reads it back: \<open>null\<close> for a missing key, or the
  JSON object that \<open>handleCredentials\<close> or \<open>handleCallback\<close> wrote.\<close>

fun null_or_object :: "json \<Rightarrow> bool" where
  "null_or_object JNull = True"
| "null_or_object (JObj kvs) = True"
| "null_or_object v = False"

text \<open>The expiry a token payload declares (\<open>expires_in\<close>, in seconds).\<close>

definition declared_expiry :: "json \<Rightarrow> json option" where
  "declared_expiry payload = get_prop payload ''expires_in''"

subsection \<open>Example runtime, stores and requests\<close>

definition example_credentials :: json where
  "example_credentials =
     JObj [(''client_id'', JStr ''0123456789abcdef0123456789abcdef''),
           (''client_secret'', JStr ''fedcba9876543210fedcba9876543210''),
           (''created_at'', JStr ''2024-05-01T10:00:00.000Z'')]"

definition example_tokens :: json where
  "example_tokens =
     JObj [(''access_token'', JStr ''BQDexample''),
           (''token_type'', JStr ''Bearer''),
           (''expires_in'', JNum 1800),
           (''refresh_token'', JStr ''AQCexample''),
           (''scope'', JStr ''user-read-currently-playing'')]"

definition credentials_text :: string where
  \<open>credentials_text = ''{"client_id":"0123456789abcdef0123456789abcdef","client_secret":"fedcba9876543210fedcba9876543210","created_at":"2024-05-01T10:00:00.000Z"}''\<close>

definition tokens_text :: string where
  \<open>tokens_text = ''{"access_token":"BQDexample","token_type":"Bearer","expires_in":1800,"refresh_token":"AQCexample","scope":"user-read-currently-playing"}''\<close>

text \<open>\<open>JSON.parse\<close> and \<open>JSON.stringify\<close> on the texts and values of the examples.\<close>

definition example_parse :: "string \<Rightarrow> json option" where
  "example_parse s =
     (if s = credentials_text then Some example_credentials
      else if s = tokens_text then Some example_tokens
      else None)"

definition example_stringify :: "json \<Rightarrow> string" where
  \<open>example_stringify j =
     (if j = example_credentials then credentials_text
      else if j = example_tokens then tokens_text
      else if j = JObj [(''error'', JStr ''No valid tokens found. Please complete OAuth setup first.'')]
      then ''{"error":"No valid tokens found. Please complete OAuth setup first."}''
      else if j = JObj [(''playing'', JBool False), (''message'', JStr ''No track currently playing'')]
      then ''{"playing":false,"message":"No track currently playing"}''
      else ''{}'')\<close>

text \<open>An upstream that accepts the code \<open>good-code\<close>, refuses every other one, and has
  nothing playing.\<close>

definition example_fetch :: "upstream_call \<Rightarrow> fetch_response option" where
  "example_fetch c =
     (case c of
        TokenRequest code uri cid sec \<Rightarrow>
          if code = ''good-code''
          then Some \<lparr>fstatus = 200, statusText = ''OK'', json_body = Some example_tokens\<rparr>
          else Some \<lparr>fstatus = 400, statusText = ''Bad Request'', json_body = None\<rparr>
      | ApiRequest endpoint tok \<Rightarrow>
          if endpoint = ''/v1/me/player/currently-playing''
          then Some \<lparr>fstatus = 204, statusText = ''No Content'', json_body = None\<rparr>
          else Some \<lparr>fstatus = 200, statusText = ''OK'',
                     json_body = Some (JObj [(''items'', JArr [])])\<rparr>)"

definition example_rt :: runtime where
  "example_rt =
     \<lparr>now = 1000, JSON_parse = example_parse, JSON_stringify = example_stringify,
      JSON_stringify_pretty = example_stringify, Number_toString = (\<lambda>r. ''0''),
      global_fetch = example_fetch, Math_random = (\<lambda>i. real (i mod 4) / 4),
      toISOString = ''2024-05-01T10:00:00.000Z'', ENVIRONMENT = ''production''\<rparr>"

definition example_request :: "string \<Rightarrow> string \<Rightarrow> (string \<times> string) list \<Rightarrow> request" where
  "example_request m p q =
     \<lparr>http_method = m, origin = ''https://proxy.example.workers.dev'', pathname = p,
      searchParams = q, formData = None\<rparr>"

definition world_credentials_only :: world where
  "world_credentials_only =
     \<lparr>kv = [''spotify_credentials'' \<mapsto> (credentials_text, None)], trace = []\<rparr>"

definition world_complete :: world where
  "world_complete =
     \<lparr>kv = [''spotify_credentials'' \<mapsto> (credentials_text, None),
            ''spotify_tokens'' \<mapsto> (tokens_text, Some 4000)], trace = []\<rparr>"

text \<open>A marker written at second 700 is live at second 1000; one written at second 300 has
  expired.\<close>

definition world_pending :: world where
  "world_pending =
     \<lparr>kv = [''spotify_credentials'' \<mapsto> (credentials_text, None),
            ''oauth_state_APfuAPfuAPfuAPfu'' \<mapsto> (''pending'', Some 1300)], trace = []\<rparr>"

definition world_expired :: world where
  "world_expired =
     \<lparr>kv = [''spotify_credentials'' \<mapsto> (credentials_text, None),
            ''oauth_state_APfuAPfuAPfuAPfu'' \<mapsto> (''pending'', Some 900)], trace = []\<rparr>"

definition world_pending_no_credentials :: world where
  "world_pending_no_credentials =
     \<lparr>kv = [''oauth_state_APfuAPfuAPfuAPfu'' \<mapsto> (''pending'', Some 1300)], trace = []\<rparr>"

section \<open>Properties\<close>

subsection \<open>Sequencing and the store\<close>

lemma bind_io_Inr: "bind_io (Inr x, w) f = f x w"
  by (simp add: bind_io_def)

lemma bind_io_Inl: "bind_io (Inl e, w) f = (Inl e, w)"
  by (simp add: bind_io_def)

lemma kv_read_absent: "m k = None \<Longrightarrow> kv_read rt m k = None"
  by (simp add: kv_read_def)

lemma kv_read_expired: "m k = Some (v, Some x) \<Longrightarrow> x \<le> now rt \<Longrightarrow> kv_read rt m k = None"
  by (simp add: kv_read_def live_def)

lemma kv_read_live: "m k = Some (v, Some x) \<Longrightarrow> now rt < x \<Longrightarrow> kv_read rt m k = Some v"
  by (simp add: kv_read_def live_def)

lemma kv_read_forever: "m k = Some (v, None) \<Longrightarrow> kv_read rt m k = Some v"
  by (simp add: kv_read_def live_def)

lemma getStoredCredentials_absent:
  "\<not> truthy_str (kv_read rt (kv w) ''spotify_credentials'') \<Longrightarrow>
   getStoredCredentials rt w = (Inr JNull, w\<lparr>trace := trace w @ [KVGet ''spotify_credentials'']\<rparr>)"
  by (simp add: getStoredCredentials_def kv_get_def bind_io_Inr parse_stored_def)

lemma getStoredCredentials_present:
  "kv_read rt (kv w) ''spotify_credentials'' = Some s \<Longrightarrow> s \<noteq> [] \<Longrightarrow> JSON_parse rt s = Some c \<Longrightarrow>
   getStoredCredentials rt w = (Inr c, w\<lparr>trace := trace w @ [KVGet ''spotify_credentials'']\<rparr>)"
  by (simp add: getStoredCredentials_def kv_get_def bind_io_Inr parse_stored_def)

lemma getStoredTokens_absent:
  "\<not> truthy_str (kv_read rt (kv w) ''spotify_tokens'') \<Longrightarrow>
   getStoredTokens rt w = (Inr JNull, w\<lparr>trace := trace w @ [KVGet ''spotify_tokens'']\<rparr>)"
  by (simp add: getStoredTokens_def kv_get_def bind_io_Inr parse_stored_def)

lemma getStoredTokens_present:
  "kv_read rt (kv w) ''spotify_tokens'' = Some s \<Longrightarrow> s \<noteq> [] \<Longrightarrow> JSON_parse rt s = Some c \<Longrightarrow>
   getStoredTokens rt w = (Inr c, w\<lparr>trace := trace w @ [KVGet ''spotify_tokens'']\<rparr>)"
  by (simp add: getStoredTokens_def kv_get_def bind_io_Inr parse_stored_def)

subsection \<open>OAuth callback: unknown or expired state\<close>

text \<open>
  C3. A callback request whose \<open>state\<close> parameter names a marker that was never stored, or
  one whose time-to-live has passed, is answered with HTTP 400, and the store is left as
  it was: no Tokens record is written (the handler performs at most the one read of the
  marker).
\<close>

theorem callback_unknown_state:
  assumes st: "map_of (searchParams rq) ''state'' = Some s"
    and gone: "kv w (''oauth_state_'' @ s) = None
               \<or> (\<exists>v x. kv w (''oauth_state_'' @ s) = Some (v, Some x) \<and> x \<le> now rt)"
  shows "\<exists>r w'. handleCallback rt rq w = (Inr r, w') \<and> status r = 400 \<and> kv w' = kv w
           \<and> kv_read rt (kv w') ''spotify_tokens'' = kv_read rt (kv w) ''spotify_tokens''
           \<and> (trace w' = trace w \<or> trace w' = trace w @ [KVGet (''oauth_state_'' @ s)])"
proof -
  from gone have rd: "kv_read rt (kv w) (''oauth_state_'' @ s) = None"
    by (auto simp: kv_read_absent kv_read_expired)
  show ?thesis
    using st rd by (simp add: handleCallback_def Let_def kv_get_def bind_io_Inr)
qed

theorem callback_unknown_state_witness:
  "map_of (searchParams (example_request ''GET'' ''/callback''
      [(''code'', ''good-code''), (''state'', ''APfuAPfuAPfuAPfu'')])) ''state''
     = Some ''APfuAPfuAPfuAPfu''
   \<and> kv world_expired (''oauth_state_'' @ ''APfuAPfuAPfuAPfu'') = Some (''pending'', Some 900)
   \<and> 900 \<le> now example_rt
   \<and> kv world_credentials_only (''oauth_state_'' @ ''APfuAPfuAPfuAPfu'') = None
   \<and> status (projr (fst (handleCallback example_rt (example_request ''GET'' ''/callback''
        [(''code'', ''good-code''), (''state'', ''APfuAPfuAPfuAPfu'')]) world_expired))) = 400
   \<and> kv (snd (handleCallback example_rt (example_request ''GET'' ''/callback''
        [(''code'', ''good-code''), (''state'', ''APfuAPfuAPfuAPfu'')]) world_expired))
      = kv world_expired
   \<and> status (projr (fst (handleCallback example_rt (example_request ''GET'' ''/callback''
        [(''code'', ''good-code''), (''state'', ''APfuAPfuAPfuAPfu'')]) world_credentials_only))) = 400
   \<and> kv (snd (handleCallback example_rt (example_request ''GET'' ''/callback''
        [(''code'', ''good-code''), (''state'', ''APfuAPfuAPfuAPfu'')]) world_credentials_only))
      = kv world_credentials_only"
proof -
  let ?rq = "example_request ''GET'' ''/callback''
      [(''code'', ''good-code''), (''state'', ''APfuAPfuAPfuAPfu'')]"
  have st: "map_of (searchParams ?rq) ''state'' = Some ''APfuAPfuAPfuAPfu''"
    by (simp add: example_request_def)
  have e1: "kv world_expired (''oauth_state_'' @ ''APfuAPfuAPfuAPfu'') = Some (''pending'', Some 900)"
    by (simp add: world_expired_def)
  have e2: "900 \<le> now example_rt"
    by (simp add: example_rt_def)
  have e3: "kv world_credentials_only (''oauth_state_'' @ ''APfuAPfuAPfuAPfu'') = None"
    by (simp add: world_credentials_only_def)
  from e1 e2 have g1: "kv world_expired (''oauth_state_'' @ ''APfuAPfuAPfuAPfu'') = None
      \<or> (\<exists>v x. kv world_expired (''oauth_state_'' @ ''APfuAPfuAPfuAPfu'') = Some (v, Some x)
              \<and> x \<le> now example_rt)"
    by blast
  from e3 have g2: "kv world_credentials_only (''oauth_state_'' @ ''APfuAPfuAPfuAPfu'') = None
      \<or> (\<exists>v x. kv world_credentials_only (''oauth_state_'' @ ''APfuAPfuAPfuAPfu'') = Some (v, Some x)
              \<and> x \<le> now example_rt)"
    by blast
  from callback_unknown_state [OF st g1]
  obtain r1 w1 where h1: "handleCallback example_rt ?rq world_expired = (Inr r1, w1)"
    "status r1 = 400" "kv w1 = kv world_expired"
    by blast
  from callback_unknown_state [OF st g2]
  obtain r2 w2 where h2: "handleCallback example_rt ?rq world_credentials_only = (Inr r2, w2)"
    "status r2 = 400" "kv w2 = kv world_credentials_only"
    by blast
  from h1 have a: "status (projr (fst (handleCallback example_rt ?rq world_expired))) = 400"
    and b: "kv (snd (handleCallback example_rt ?rq world_expired)) = kv world_expired"
    by simp_all
  from h2 have c: "status (projr (fst (handleCallback example_rt ?rq world_credentials_only))) = 400"
    and d: "kv (snd (handleCallback example_rt ?rq world_credentials_only)) = kv world_credentials_only"
    by simp_all
  from st e1 e2 e3 a b c d show ?thesis
    by blast
qed

subsection \<open>Data routes without tokens\<close>

text \<open>
  C7. When the store has no Tokens record (the key is missing or has expired), the
  now-playing and the recent route both answer HTTP 401 with the JSON error object that
  tells the caller to complete the OAuth setup, and the only effect is the read of the
  Tokens key: no upstream call is made.
\<close>

theorem data_routes_without_tokens:
  assumes "kv_read rt (kv w) ''spotify_tokens'' = None"
  shows "handleNowPlaying rt rq w
           = (Inr (no_tokens_response rt), w\<lparr>trace := trace w @ [KVGet ''spotify_tokens'']\<rparr>)
       \<and> handleRecent rt rq w
           = (Inr (no_tokens_response rt), w\<lparr>trace := trace w @ [KVGet ''spotify_tokens'']\<rparr>)
       \<and> status (no_tokens_response rt) = 401
       \<and> headers (no_tokens_response rt) = (''Content-Type'', ''application/json'') # corsHeaders
       \<and> body (no_tokens_response rt)
           = Text (JSON_stringify rt (JObj [(''error'',
               JStr ''No valid tokens found. Please complete OAuth setup first.'')]))
       \<and> (\<forall>c. Fetch c \<notin> set [KVGet ''spotify_tokens''])"
  using assms
  by (simp add: handleNowPlaying_def handleRecent_def getStoredTokens_absent bind_io_Inr
      no_tokens_response_def json_headers_def)

theorem data_routes_without_tokens_witness:
  \<open>kv_read example_rt (kv world_credentials_only) ''spotify_tokens'' = None
   \<and> handleNowPlaying example_rt (example_request ''GET'' ''/now-playing'' []) world_credentials_only
       = (Inr \<lparr>status = 401, headers = (''Content-Type'', ''application/json'') # corsHeaders,
               body = Text ''{"error":"No valid tokens found. Please complete OAuth setup first."}''\<rparr>,
          world_credentials_only\<lparr>trace := [KVGet ''spotify_tokens'']\<rparr>)
   \<and> handleRecent example_rt (example_request ''GET'' ''/recent'' []) world_credentials_only
       = (Inr \<lparr>status = 401, headers = (''Content-Type'', ''application/json'') # corsHeaders,
               body = Text ''{"error":"No valid tokens found. Please complete OAuth setup first."}''\<rparr>,
          world_credentials_only\<lparr>trace := [KVGet ''spotify_tokens'']\<rparr>)\<close>
proof -
  have h: "kv_read example_rt (kv world_credentials_only) ''spotify_tokens'' = None"
    by (simp add: kv_read_def world_credentials_only_def)
  have t: "trace world_credentials_only = []"
    by (simp add: world_credentials_only_def)
  have b: \<open>no_tokens_response example_rt
      = \<lparr>status = 401, headers = (''Content-Type'', ''application/json'') # corsHeaders,
         body = Text ''{"error":"No valid tokens found. Please complete OAuth setup first."}''\<rparr>\<close>
    by (simp add: no_tokens_response_def json_headers_def example_rt_def example_stringify_def
        example_credentials_def example_tokens_def)
  from data_routes_without_tokens [OF h] h t b show ?thesis
    by simp
qed

subsection \<open>Nothing playing\<close>

text \<open>
  C8. With a Tokens record stored, when the upstream answers the currently-playing request
  with HTTP 204, the now-playing route answers HTTP 200 with the JSON object whose
  \<open>playing\<close> property is \<open>false\<close>; the 204 is not passed through.
\<close>

theorem now_playing_204_normalized:
  assumes "kv_read rt (kv w) ''spotify_tokens'' = Some s" and "s \<noteq> []"
    and "JSON_parse rt s = Some tokens" and "truthy tokens"
    and "global_fetch rt (ApiRequest ''/v1/me/player/currently-playing''
           (get_prop tokens ''access_token'')) = Some resp"
    and "fstatus resp = 204"
  shows "handleNowPlaying rt rq w
           = (Inr \<lparr>status = 200, headers = json_headers,
                   body = Text (JSON_stringify rt
                            (JObj [(''playing'', JBool False),
                                   (''message'', JStr ''No track currently playing'')]))\<rparr>,
              w\<lparr>trace := trace w @ [KVGet ''spotify_tokens'',
                   Fetch (ApiRequest ''/v1/me/player/currently-playing''
                            (get_prop tokens ''access_token''))]\<rparr>)"
  using assms
  by (simp add: handleNowPlaying_def getStoredTokens_present bind_io_Inr callSpotifyAPI_def
      do_fetch_def)

theorem now_playing_204_normalized_witness:
  \<open>kv_read example_rt (kv world_complete) ''spotify_tokens'' = Some tokens_text
   \<and> tokens_text \<noteq> []
   \<and> JSON_parse example_rt tokens_text = Some example_tokens
   \<and> truthy example_tokens
   \<and> global_fetch example_rt (ApiRequest ''/v1/me/player/currently-playing''
        (get_prop example_tokens ''access_token''))
       = Some \<lparr>fstatus = 204, statusText = ''No Content'', json_body = None\<rparr>
   \<and> handleNowPlaying example_rt (example_request ''GET'' ''/now-playing'' []) world_complete
       = (Inr \<lparr>status = 200, headers = (''Content-Type'', ''application/json'') # corsHeaders,
               body = Text ''{"playing":false,"message":"No track currently playing"}''\<rparr>,
          world_complete\<lparr>trace := [KVGet ''spotify_tokens'',
               Fetch (ApiRequest ''/v1/me/player/currently-playing''
                        (Some (JStr ''BQDexample'')))]\<rparr>)\<close>
proof -
  have h1: "kv_read example_rt (kv world_complete) ''spotify_tokens'' = Some tokens_text"
    by (simp add: kv_read_def live_def world_complete_def example_rt_def)
  have h2: "tokens_text \<noteq> []"
    by (simp add: tokens_text_def)
  have h3: "JSON_parse example_rt tokens_text = Some example_tokens"
    by (simp add: example_rt_def example_parse_def tokens_text_def credentials_text_def)
  have h4: "truthy example_tokens"
    by (simp add: example_tokens_def)
  have h5: "global_fetch example_rt (ApiRequest ''/v1/me/player/currently-playing''
        (get_prop example_tokens ''access_token''))
       = Some \<lparr>fstatus = 204, statusText = ''No Content'', json_body = None\<rparr>"
    by (simp add: example_rt_def example_fetch_def)
  have h6: "fstatus \<lparr>fstatus = 204, statusText = ''No Content'', json_body = None\<rparr> = 204"
    by simp
  have t: "trace world_complete = []"
    by (simp add: world_complete_def)
  have p: "get_prop example_tokens ''access_token'' = Some (JStr ''BQDexample'')"
    by (simp add: example_tokens_def)
  have b: \<open>JSON_stringify example_rt
        (JObj [(''playing'', JBool False), (''message'', JStr ''No track currently playing'')])
      = ''{"playing":false,"message":"No track currently playing"}''\<close>
    by (simp add: example_rt_def example_stringify_def example_credentials_def example_tokens_def)
  from now_playing_204_normalized [OF h1 h2 h3 h4 h5 h6,
      of "example_request ''GET'' ''/now-playing'' []"] h1 h2 h3 h4 h5 t p b
  show ?thesis
    by (simp add: json_headers_def)
qed

subsection \<open>OAuth callback: the token exchange\<close>

text \<open>
  C4. A callback request that reaches the token exchange (a code, no error parameter, a
  live marker, stored credentials) and whose upstream token request is answered with a
  status outside 200..299 gets HTTP 400 with the upstream status text as the reason; the
  store is unchanged, so no token data is written and the marker is still there, and the
  effects are the two reads and the one upstream call.
\<close>

theorem callback_exchange_rejected:
  assumes "\<not> truthy_str (map_of (searchParams rq) ''error'')"
    and "map_of (searchParams rq) ''code'' = Some code" and "code \<noteq> []"
    and "map_of (searchParams rq) ''state'' = Some s" and "s \<noteq> []"
    and "kv_read rt (kv w) (''oauth_state_'' @ s) = Some m" and "m \<noteq> []"
    and "kv_read rt (kv w) ''spotify_credentials'' = Some cj" and "cj \<noteq> []"
    and "JSON_parse rt cj = Some credentials" and "truthy credentials"
    and "global_fetch rt (TokenRequest code (origin rq @ ''/callback'')
           (get_prop credentials ''client_id'') (get_prop credentials ''client_secret''))
         = Some resp"
    and "\<not> ok resp"
  shows "\<exists>w'. handleCallback rt rq w
           = (Inr \<lparr>status = 400, headers = [],
                   body = Text (''Token exchange failed: '' @ ''Token exchange failed: ''
                                @ statusText resp)\<rparr>, w')
         \<and> kv w' = kv w
         \<and> kv_read rt (kv w') (''oauth_state_'' @ s) = Some m
         \<and> trace w' = trace w @
              [KVGet (''oauth_state_'' @ s), KVGet ''spotify_credentials'',
               Fetch (TokenRequest code (origin rq @ ''/callback'')
                 (get_prop credentials ''client_id'') (get_prop credentials ''client_secret''))]"
  using assms
  by (simp add: handleCallback_def exchangeCodeForTokens_def getStoredCredentials_def
      parse_stored_def kv_get_def do_fetch_def bind_io_Inr Let_def)

theorem callback_exchange_rejected_witness:
  "\<not> truthy_str (map_of (searchParams (example_request ''GET'' ''/callback''
        [(''code'', ''stale-code''), (''state'', ''APfuAPfuAPfuAPfu'')])) ''error'')
   \<and> kv_read example_rt (kv world_pending) (''oauth_state_'' @ ''APfuAPfuAPfuAPfu'') = Some ''pending''
   \<and> kv_read example_rt (kv world_pending) ''spotify_credentials'' = Some credentials_text
   \<and> JSON_parse example_rt credentials_text = Some example_credentials
   \<and> global_fetch example_rt (TokenRequest ''stale-code''
        (origin (example_request ''GET'' ''/callback''
           [(''code'', ''stale-code''), (''state'', ''APfuAPfuAPfuAPfu'')]) @ ''/callback'')
        (get_prop example_credentials ''client_id'') (get_prop example_credentials ''client_secret''))
       = Some \<lparr>fstatus = 400, statusText = ''Bad Request'', json_body = None\<rparr>
   \<and> \<not> ok \<lparr>fstatus = 400, statusText = ''Bad Request'', json_body = None\<rparr>
   \<and> fst (handleCallback example_rt (example_request ''GET'' ''/callback''
        [(''code'', ''stale-code''), (''state'', ''APfuAPfuAPfuAPfu'')]) world_pending)
       = Inr \<lparr>status = 400, headers = [],
              body = Text ''Token exchange failed: Token exchange failed: Bad Request''\<rparr>
   \<and> kv (snd (handleCallback example_rt (example_request ''GET'' ''/callback''
        [(''code'', ''stale-code''), (''state'', ''APfuAPfuAPfuAPfu'')]) world_pending))
       = kv world_pending"
proof -
  let ?rq = "example_request ''GET'' ''/callback''
        [(''code'', ''stale-code''), (''state'', ''APfuAPfuAPfuAPfu'')]"
  let ?resp = "\<lparr>fstatus = 400, statusText = ''Bad Request'', json_body = None\<rparr>"
  have h1: "\<not> truthy_str (map_of (searchParams ?rq) ''error'')"
    and h2: "map_of (searchParams ?rq) ''code'' = Some ''stale-code''"
    and h3: "''stale-code'' \<noteq> []"
    and h4: "map_of (searchParams ?rq) ''state'' = Some ''APfuAPfuAPfuAPfu''"
    and h5: "''APfuAPfuAPfuAPfu'' \<noteq> []"
    by (simp_all add: example_request_def)
  have h6: "kv_read example_rt (kv world_pending) (''oauth_state_'' @ ''APfuAPfuAPfuAPfu'')
      = Some ''pending''"
    and h7: "''pending'' \<noteq> []"
    and h8: "kv_read example_rt (kv world_pending) ''spotify_credentials'' = Some credentials_text"
    by (simp_all add: kv_read_def live_def world_pending_def example_rt_def)
  have h9: "credentials_text \<noteq> []"
    by (simp add: credentials_text_def)
  have h10: "JSON_parse example_rt credentials_text = Some example_credentials"
    by (simp add: example_rt_def example_parse_def)
  have h11: "truthy example_credentials"
    by (simp add: example_credentials_def)
  have h12: "global_fetch example_rt (TokenRequest ''stale-code'' (origin ?rq @ ''/callback'')
        (get_prop example_credentials ''client_id'') (get_prop example_credentials ''client_secret''))
       = Some ?resp"
    by (simp add: example_rt_def example_fetch_def)
  have h13: "\<not> ok ?resp"
    by (simp add: ok_def)
  from callback_exchange_rejected [OF h1 h2 h3 h4 h5 h6 h7 h8 h9 h10 h11 h12 h13]
  obtain w' where r: "handleCallback example_rt ?rq world_pending
           = (Inr \<lparr>status = 400, headers = [],
                   body = Text (''Token exchange failed: '' @ ''Token exchange failed: ''
                                @ statusText ?resp)\<rparr>, w')"
    and k: "kv w' = kv world_pending"
    by blast
  from r have a: "fst (handleCallback example_rt ?rq world_pending)
       = Inr \<lparr>status = 400, headers = [],
              body = Text ''Token exchange failed: Token exchange failed: Bad Request''\<rparr>"
    by simp
  from r k have b: "kv (snd (handleCallback example_rt ?rq world_pending)) = kv world_pending"
    by simp
  from h1 h6 h8 h10 h12 h13 a b show ?thesis
    by blast
qed

text \<open>
  C10, as the code has it. A callback request with a non-empty code and no error parameter,
  whose marker is live while no Credentials record is stored, gets HTTP 400 with the
  message that no credentials were found; the store is unchanged (no Tokens record, the
  marker in place) and no upstream call is made.
\<close>

theorem callback_without_credentials:
  assumes "\<not> truthy_str (map_of (searchParams rq) ''error'')"
    and "map_of (searchParams rq) ''code'' = Some code" and "code \<noteq> []"
    and "map_of (searchParams rq) ''state'' = Some s" and "s \<noteq> []"
    and "kv_read rt (kv w) (''oauth_state_'' @ s) = Some m" and "m \<noteq> []"
    and "kv_read rt (kv w) ''spotify_credentials'' = None"
  shows "\<exists>w'. handleCallback rt rq w
           = (Inr \<lparr>status = 400, headers = [],
                   body = Text (''Token exchange failed: '' @
                     ''No Spotify credentials found. Please complete setup first.'')\<rparr>, w')
         \<and> kv w' = kv w
         \<and> kv_read rt (kv w') (''oauth_state_'' @ s) = Some m
         \<and> trace w' = trace w @ [KVGet (''oauth_state_'' @ s), KVGet ''spotify_credentials'']"
  using assms
  by (simp add: handleCallback_def exchangeCodeForTokens_def getStoredCredentials_def
      parse_stored_def kv_get_def bind_io_Inr Let_def)

theorem callback_without_credentials_witness:
  "kv_read example_rt (kv world_pending_no_credentials) (''oauth_state_'' @ ''APfuAPfuAPfuAPfu'')
     = Some ''pending''
   \<and> kv_read example_rt (kv world_pending_no_credentials) ''spotify_credentials'' = None
   \<and> handleCallback example_rt (example_request ''GET'' ''/callback''
        [(''code'', ''good-code''), (''state'', ''APfuAPfuAPfuAPfu'')]) world_pending_no_credentials
       = (Inr \<lparr>status = 400, headers = [],
               body = Text ''Token exchange failed: No Spotify credentials found. Please complete setup first.''\<rparr>,
          world_pending_no_credentials\<lparr>trace :=
            [KVGet ''oauth_state_APfuAPfuAPfuAPfu'', KVGet ''spotify_credentials'']\<rparr>)"
proof -
  let ?rq = "example_request ''GET'' ''/callback''
        [(''code'', ''good-code''), (''state'', ''APfuAPfuAPfuAPfu'')]"
  have h1: "\<not> truthy_str (map_of (searchParams ?rq) ''error'')"
    and h2: "map_of (searchParams ?rq) ''code'' = Some ''good-code''"
    and h3: "''good-code'' \<noteq> []"
    and h4: "map_of (searchParams ?rq) ''state'' = Some ''APfuAPfuAPfuAPfu''"
    and h5: "''APfuAPfuAPfuAPfu'' \<noteq> []"
    by (simp_all add: example_request_def)
  have h6: "kv_read example_rt (kv world_pending_no_credentials)
        (''oauth_state_'' @ ''APfuAPfuAPfuAPfu'') = Some ''pending''"
    and h7: "''pending'' \<noteq> []"
    and h8: "kv_read example_rt (kv world_pending_no_credentials) ''spotify_credentials'' = None"
    by (simp_all add: kv_read_def live_def world_pending_no_credentials_def example_rt_def)
  from callback_without_credentials [OF h1 h2 h3 h4 h5 h6 h7 h8]
  obtain w' where r: "handleCallback example_rt ?rq world_pending_no_credentials
           = (Inr \<lparr>status = 400, headers = [],
                   body = Text (''Token exchange failed: '' @
                     ''No Spotify credentials found. Please complete setup first.'')\<rparr>, w')"
    and k: "kv w' = kv world_pending_no_credentials"
    and t: "trace w' = trace world_pending_no_credentials @
              [KVGet (''oauth_state_'' @ ''APfuAPfuAPfuAPfu''), KVGet ''spotify_credentials'']"
    by blast
  have "w' = world_pending_no_credentials\<lparr>trace :=
            [KVGet ''oauth_state_APfuAPfuAPfuAPfu'', KVGet ''spotify_credentials'']\<rparr>"
    using k t by (cases w') (simp add: world_pending_no_credentials_def)
  with r h6 h8 show ?thesis
    by simp
qed

text \<open>
  The claim C10 as it is written covers every callback request with a live marker and no
  credentials. One that carries an \<open>error\<close> parameter (the provider's answer when the user
  denies access) is answered before the store is read, with that error as the message;
  one that carries no \<open>code\<close> is answered with the message that a parameter is missing.
\<close>

theorem callback_without_credentials_counterexample:
  "kv_read example_rt (kv world_pending_no_credentials) ''oauth_state_APfuAPfuAPfuAPfu''
     = Some ''pending''
   \<and> kv_read example_rt (kv world_pending_no_credentials) ''spotify_credentials'' = None
   \<and> handleCallback example_rt (example_request ''GET'' ''/callback''
        [(''error'', ''access_denied''), (''state'', ''APfuAPfuAPfuAPfu'')])
        world_pending_no_credentials
       = (Inr \<lparr>status = 400, headers = [], body = Text ''OAuth Error: access_denied''\<rparr>,
          world_pending_no_credentials)
   \<and> handleCallback example_rt (example_request ''GET'' ''/callback''
        [(''state'', ''APfuAPfuAPfuAPfu'')])
        world_pending_no_credentials
       = (Inr \<lparr>status = 400, headers = [],
               body = Text ''Missing authorization code or state''\<rparr>,
          world_pending_no_credentials)"
  by (simp add: handleCallback_def kv_read_def live_def world_pending_no_credentials_def
      example_rt_def example_request_def)

subsection \<open>OAuth callback: success\<close>

text \<open>
  C2, as the code has it. A callback request with a code and no error parameter, whose
  marker is live and whose token exchange succeeds (stored credentials, an upstream answer
  with a status in 200..299 and a JSON body), stores the JSON text of the returned payload
  under \<open>spotify_tokens\<close> with a time-to-live of 3600 seconds, whatever expiry the payload
  declares, then deletes the marker, and answers HTTP 200 with the success page. The
  marker is read once and deleted once.
\<close>

theorem callback_success:
  assumes "\<not> truthy_str (map_of (searchParams rq) ''error'')"
    and "map_of (searchParams rq) ''code'' = Some code" and "code \<noteq> []"
    and "map_of (searchParams rq) ''state'' = Some s" and "s \<noteq> []"
    and "kv_read rt (kv w) (''oauth_state_'' @ s) = Some m" and "m \<noteq> []"
    and "kv_read rt (kv w) ''spotify_credentials'' = Some cj" and "cj \<noteq> []"
    and "JSON_parse rt cj = Some credentials" and "truthy credentials"
    and "global_fetch rt (TokenRequest code (origin rq @ ''/callback'')
           (get_prop credentials ''client_id'') (get_prop credentials ''client_secret''))
         = Some resp"
    and "ok resp" and "json_body resp = Some payload"
  shows "\<exists>w' effects. handleCallback rt rq w
           = (Inr \<lparr>status = 200, headers = html_headers, body = Html OAuthSuccessPage\<rparr>, w')
         \<and> kv w' = ((kv w)(''spotify_tokens'' \<mapsto> (JSON_stringify rt payload, Some (now rt + 3600))))
                      (''oauth_state_'' @ s := None)
         \<and> kv_read rt (kv w') ''spotify_tokens'' = Some (JSON_stringify rt payload)
         \<and> kv_read rt (kv w') (''oauth_state_'' @ s) = None
         \<and> trace w' = trace w @ effects
         \<and> effects =
              [KVGet (''oauth_state_'' @ s), KVGet ''spotify_credentials'',
               Fetch (TokenRequest code (origin rq @ ''/callback'')
                 (get_prop credentials ''client_id'') (get_prop credentials ''client_secret'')),
               KVPut ''spotify_tokens'' (JSON_stringify rt payload) (Some 3600),
               KVDelete (''oauth_state_'' @ s)]
         \<and> count_list effects (KVGet (''oauth_state_'' @ s)) = 1
         \<and> count_list effects (KVDelete (''oauth_state_'' @ s)) = 1"
  using assms
  by (simp add: handleCallback_def exchangeCodeForTokens_def getStoredCredentials_def
      parse_stored_def kv_get_def kv_put_def kv_delete_def do_fetch_def bind_io_Inr Let_def
      kv_read_def live_def)

theorem callback_success_witness:
  "\<not> truthy_str (map_of (searchParams (example_request ''GET'' ''/callback''
        [(''code'', ''good-code''), (''state'', ''APfuAPfuAPfuAPfu'')])) ''error'')
   \<and> kv_read example_rt (kv world_pending) (''oauth_state_'' @ ''APfuAPfuAPfuAPfu'') = Some ''pending''
   \<and> kv_read example_rt (kv world_pending) ''spotify_credentials'' = Some credentials_text
   \<and> JSON_parse example_rt credentials_text = Some example_credentials
   \<and> global_fetch example_rt (TokenRequest ''good-code''
        (origin (example_request ''GET'' ''/callback''
           [(''code'', ''good-code''), (''state'', ''APfuAPfuAPfuAPfu'')]) @ ''/callback'')
        (get_prop example_credentials ''client_id'') (get_prop example_credentials ''client_secret''))
       = Some \<lparr>fstatus = 200, statusText = ''OK'', json_body = Some example_tokens\<rparr>
   \<and> ok \<lparr>fstatus = 200, statusText = ''OK'', json_body = Some example_tokens\<rparr>
   \<and> fst (handleCallback example_rt (example_request ''GET'' ''/callback''
        [(''code'', ''good-code''), (''state'', ''APfuAPfuAPfuAPfu'')]) world_pending)
       = Inr \<lparr>status = 200, headers = html_headers, body = Html OAuthSuccessPage\<rparr>
   \<and> kv (snd (handleCallback example_rt (example_request ''GET'' ''/callback''
        [(''code'', ''good-code''), (''state'', ''APfuAPfuAPfuAPfu'')]) world_pending))
       = [''spotify_credentials'' \<mapsto> (credentials_text, None),
          ''spotify_tokens'' \<mapsto> (tokens_text, Some 4600)]
   \<and> trace (snd (handleCallback example_rt (example_request ''GET'' ''/callback''
        [(''code'', ''good-code''), (''state'', ''APfuAPfuAPfuAPfu'')]) world_pending))
       = [KVGet ''oauth_state_APfuAPfuAPfuAPfu'', KVGet ''spotify_credentials'',
          Fetch (TokenRequest ''good-code'' ''https://proxy.example.workers.dev/callback''
            (Some (JStr ''0123456789abcdef0123456789abcdef''))
            (Some (JStr ''fedcba9876543210fedcba9876543210''))),
          KVPut ''spotify_tokens'' tokens_text (Some 3600),
          KVDelete ''oauth_state_APfuAPfuAPfuAPfu'']"
proof -
  let ?rq = "example_request ''GET'' ''/callback''
        [(''code'', ''good-code''), (''state'', ''APfuAPfuAPfuAPfu'')]"
  let ?resp = "\<lparr>fstatus = 200, statusText = ''OK'', json_body = Some example_tokens\<rparr>"
  have h1: "\<not> truthy_str (map_of (searchParams ?rq) ''error'')"
    and h2: "map_of (searchParams ?rq) ''code'' = Some ''good-code''"
    and h3: "''good-code'' \<noteq> []"
    and h4: "map_of (searchParams ?rq) ''state'' = Some ''APfuAPfuAPfuAPfu''"
    and h5: "''APfuAPfuAPfuAPfu'' \<noteq> []"
    by (simp_all add: example_request_def)
  have h6: "kv_read example_rt (kv world_pending) (''oauth_state_'' @ ''APfuAPfuAPfuAPfu'')
      = Some ''pending''"
    and h7: "''pending'' \<noteq> []"
    and h8: "kv_read example_rt (kv world_pending) ''spotify_credentials'' = Some credentials_text"
    by (simp_all add: kv_read_def live_def world_pending_def example_rt_def)
  have h9: "credentials_text \<noteq> []"
    by (simp add: credentials_text_def)
  have h10: "JSON_parse example_rt credentials_text = Some example_credentials"
    by (simp add: example_rt_def example_parse_def)
  have h11: "truthy example_credentials"
    by (simp add: example_credentials_def)
  have h12: "global_fetch example_rt (TokenRequest ''good-code'' (origin ?rq @ ''/callback'')
        (get_prop example_credentials ''client_id'') (get_prop example_credentials ''client_secret''))
       = Some ?resp"
    by (simp add: example_rt_def example_fetch_def)
  have h13: "ok ?resp"
    by (simp add: ok_def)
  have h14: "json_body ?resp = Some example_tokens"
    by simp
  have s: "JSON_stringify example_rt example_tokens = tokens_text"
    by (simp add: example_rt_def example_stringify_def example_tokens_def example_credentials_def)
  have n: "now example_rt + 3600 = 4600"
    by (simp add: example_rt_def)
  have m: "((kv world_pending)(''spotify_tokens'' \<mapsto> (tokens_text, Some 4600)))
              (''oauth_state_'' @ ''APfuAPfuAPfuAPfu'' := None)
       = [''spotify_credentials'' \<mapsto> (credentials_text, None),
          ''spotify_tokens'' \<mapsto> (tokens_text, Some 4600)]"
    by (rule ext) (simp add: world_pending_def)
  from callback_success [OF h1 h2 h3 h4 h5 h6 h7 h8 h9 h10 h11 h12 h13 h14]
  obtain w' where r: "handleCallback example_rt ?rq world_pending
           = (Inr \<lparr>status = 200, headers = html_headers, body = Html OAuthSuccessPage\<rparr>, w')"
    and k: "kv w' = ((kv world_pending)(''spotify_tokens'' \<mapsto>
                  (JSON_stringify example_rt example_tokens, Some (now example_rt + 3600))))
                (''oauth_state_'' @ ''APfuAPfuAPfuAPfu'' := None)"
    and t: "trace w' = trace world_pending @
              [KVGet (''oauth_state_'' @ ''APfuAPfuAPfuAPfu''), KVGet ''spotify_credentials'',
               Fetch (TokenRequest ''good-code'' (origin ?rq @ ''/callback'')
                 (get_prop example_credentials ''client_id'')
                 (get_prop example_credentials ''client_secret'')),
               KVPut ''spotify_tokens'' (JSON_stringify example_rt example_tokens) (Some 3600),
               KVDelete (''oauth_state_'' @ ''APfuAPfuAPfuAPfu'')]"
    by blast
  from r have a: "fst (handleCallback example_rt ?rq world_pending)
       = Inr \<lparr>status = 200, headers = html_headers, body = Html OAuthSuccessPage\<rparr>"
    by simp
  from r k have b: "kv (snd (handleCallback example_rt ?rq world_pending))
       = [''spotify_credentials'' \<mapsto> (credentials_text, None),
          ''spotify_tokens'' \<mapsto> (tokens_text, Some 4600)]"
    by (simp only: snd_conv s n m)
  from r t have c: "trace (snd (handleCallback example_rt ?rq world_pending))
       = [KVGet ''oauth_state_APfuAPfuAPfuAPfu'', KVGet ''spotify_credentials'',
          Fetch (TokenRequest ''good-code'' ''https://proxy.example.workers.dev/callback''
            (Some (JStr ''0123456789abcdef0123456789abcdef''))
            (Some (JStr ''fedcba9876543210fedcba9876543210''))),
          KVPut ''spotify_tokens'' tokens_text (Some 3600),
          KVDelete ''oauth_state_APfuAPfuAPfuAPfu'']"
    by (simp add: s) (simp add: world_pending_def example_request_def example_credentials_def)
  from h1 h6 h8 h10 h12 h13 a b c show ?thesis
    by blast
qed

text \<open>
  The claim C2 as it is written binds the time-to-live of the Tokens record to the expiry
  the payload declares. The payload of the example declares 1800 seconds; the record is
  written at second 1000 and expires at second 4600, that is after 3600 seconds.
\<close>

theorem callback_success_counterexample:
  "declared_expiry example_tokens = Some (JNum 1800)
   \<and> now example_rt = 1000
   \<and> fst (exchangeCodeForTokens example_rt ''good-code'' (example_request ''GET'' ''/callback''
        [(''code'', ''good-code''), (''state'', ''APfuAPfuAPfuAPfu'')])
        (world_pending\<lparr>trace := [KVGet ''oauth_state_APfuAPfuAPfuAPfu'']\<rparr>))
       = Inr (Success example_tokens)
   \<and> kv (snd (handleCallback example_rt (example_request ''GET'' ''/callback''
        [(''code'', ''good-code''), (''state'', ''APfuAPfuAPfuAPfu'')]) world_pending))
        ''spotify_tokens''
       = Some (tokens_text, Some 4600)
   \<and> KVPut ''spotify_tokens'' tokens_text (Some 3600)
       \<in> set (trace (snd (handleCallback example_rt (example_request ''GET'' ''/callback''
            [(''code'', ''good-code''), (''state'', ''APfuAPfuAPfuAPfu'')]) world_pending)))"
  by (simp add: declared_expiry_def handleCallback_def exchangeCodeForTokens_def
      getStoredCredentials_def parse_stored_def bind_io_def kv_get_def kv_put_def kv_delete_def
      kv_read_def live_def do_fetch_def ok_def Let_def example_rt_def example_request_def
      example_parse_def example_stringify_def example_fetch_def example_credentials_def
      example_tokens_def credentials_text_def tokens_text_def world_pending_def)

subsection \<open>Credential submission\<close>

text \<open>
  C5. A credential submission (a POST with a form body) in which the client identifier or
  the client secret is missing or empty, or in which the identifier has fewer than 30
  characters or a character outside \<open>[a-zA-Z0-9]\<close>, is answered HTTP 400 with the
  credentials page and an error message; the world is returned as it was: nothing is
  written to the store, and the store is not even read.
\<close>

theorem credentials_rejected:
  assumes "http_method rq = ''POST''" and "formData rq = Some form"
    and "\<not> truthy_str (map_of form ''client_id'') \<or> \<not> truthy_str (map_of form ''client_secret'')
         \<or> (\<exists>cid. map_of form ''client_id'' = Some cid
               \<and> (length cid < 30 \<or> (\<exists>ch \<in> set cid. \<not> is_alnum ch)))"
  shows "\<exists>msg. handleCredentials rt rq w
           = (Inr \<lparr>status = 400, headers = html_headers,
                   body = Html (CredentialsPage (Some msg) (origin rq))\<rparr>, w)"
  using assms
  by (auto simp: handleCredentials_def Let_def match_alnum_def list_all_iff)

theorem credentials_rejected_witness:
  "truthy_str (map_of [(''client_id'', ''abc123''), (''client_secret'', ''s3cret'')] ''client_id'')
   \<and> length ''abc123'' < 30
   \<and> handleCredentials example_rt
        ((example_request ''POST'' ''/credentials'' [])
           \<lparr>formData := Some [(''client_id'', ''abc123''), (''client_secret'', ''s3cret'')]\<rparr>)
        world_credentials_only
       = (Inr \<lparr>status = 400, headers = html_headers,
               body = Html (CredentialsPage
                 (Some ''Invalid Client ID format. Please check your Spotify app credentials.'')
                 ''https://proxy.example.workers.dev'')\<rparr>,
          world_credentials_only)
   \<and> kv (snd (handleCredentials example_rt
        ((example_request ''POST'' ''/credentials'' [])
           \<lparr>formData := Some [(''client_id'', ''0123456789-abcdef-0123456789-abcdef''),
                              (''client_secret'', ''s3cret'')]\<rparr>)
        world_credentials_only))
       = kv world_credentials_only
   \<and> status (projr (fst (handleCredentials example_rt
        ((example_request ''POST'' ''/credentials'' [])
           \<lparr>formData := Some [(''client_id'', ''0123456789-abcdef-0123456789-abcdef''),
                              (''client_secret'', ''s3cret'')]\<rparr>)
        world_credentials_only))) = 400"
proof -
  let ?f1 = "[(''client_id'', ''abc123''), (''client_secret'', ''s3cret'')]"
  let ?f2 = "[(''client_id'', ''0123456789-abcdef-0123456789-abcdef''),
              (''client_secret'', ''s3cret'')]"
  let ?rq1 = "(example_request ''POST'' ''/credentials'' [])\<lparr>formData := Some ?f1\<rparr>"
  let ?rq2 = "(example_request ''POST'' ''/credentials'' [])\<lparr>formData := Some ?f2\<rparr>"
  have m1: "http_method ?rq1 = ''POST''" and m2: "http_method ?rq2 = ''POST''"
    and f1: "formData ?rq1 = Some ?f1" and f2: "formData ?rq2 = Some ?f2"
    by (simp_all add: example_request_def)
  have a: "truthy_str (map_of ?f1 ''client_id'')" and b: "length ''abc123'' < 30"
    by simp_all
  have b1: "\<not> truthy_str (map_of ?f1 ''client_id'') \<or> \<not> truthy_str (map_of ?f1 ''client_secret'')
         \<or> (\<exists>cid. map_of ?f1 ''client_id'' = Some cid
               \<and> (length cid < 30 \<or> (\<exists>ch \<in> set cid. \<not> is_alnum ch)))"
    by simp
  have "\<not> is_alnum CHR ''-''"
    by (simp add: is_alnum_def)
  then have b2: "\<not> truthy_str (map_of ?f2 ''client_id'') \<or> \<not> truthy_str (map_of ?f2 ''client_secret'')
         \<or> (\<exists>cid. map_of ?f2 ''client_id'' = Some cid
               \<and> (length cid < 30 \<or> (\<exists>ch \<in> set cid. \<not> is_alnum ch)))"
    by simp
  from credentials_rejected [OF m1 f1 b1, of example_rt world_credentials_only]
  obtain msg1 where r1: "handleCredentials example_rt ?rq1 world_credentials_only
           = (Inr \<lparr>status = 400, headers = html_headers,
                   body = Html (CredentialsPage (Some msg1) (origin ?rq1))\<rparr>, world_credentials_only)"
    by blast
  from credentials_rejected [OF m2 f2 b2, of example_rt world_credentials_only]
  obtain msg2 where r2: "handleCredentials example_rt ?rq2 world_credentials_only
           = (Inr \<lparr>status = 400, headers = html_headers,
                   body = Html (CredentialsPage (Some msg2) (origin ?rq2))\<rparr>, world_credentials_only)"
    by blast
  have c: "handleCredentials example_rt ?rq1 world_credentials_only
       = (Inr \<lparr>status = 400, headers = html_headers,
               body = Html (CredentialsPage
                 (Some ''Invalid Client ID format. Please check your Spotify app credentials.'')
                 ''https://proxy.example.workers.dev'')\<rparr>,
          world_credentials_only)"
    by (simp add: handleCredentials_def example_request_def)
  from r2 have d: "kv (snd (handleCredentials example_rt ?rq2 world_credentials_only))
       = kv world_credentials_only"
    and e: "status (projr (fst (handleCredentials example_rt ?rq2 world_credentials_only))) = 400"
    by simp_all
  from a b c d e show ?thesis
    by blast
qed

subsection \<open>Cross-origin headers\<close>

text \<open>
  C9. The claim is that every response carries the cross-origin headers. The dispatcher
  answers a request to \<open>/callback\<close> that has an \<open>error\<close> parameter with HTTP 400 and no
  header at all.
\<close>

theorem callback_error_response_has_no_headers:
  assumes "http_method rq \<noteq> ''OPTIONS''" and "pathname rq = ''/callback''"
    and "map_of (searchParams rq) ''error'' = Some e" and "e \<noteq> []"
  shows "fetch rt rq w
           = (Inr \<lparr>status = 400, headers = [], body = Text (''OAuth Error: '' @ e)\<rparr>, w)"
  using assms
  by (simp add: fetch_def handleCallback_def Let_def)

theorem callback_error_response_has_no_headers_witness:
  "http_method (example_request ''GET'' ''/callback'' [(''error'', ''access_denied'')]) \<noteq> ''OPTIONS''
   \<and> pathname (example_request ''GET'' ''/callback'' [(''error'', ''access_denied'')]) = ''/callback''
   \<and> fetch example_rt (example_request ''GET'' ''/callback'' [(''error'', ''access_denied'')])
        world_complete
       = (Inr \<lparr>status = 400, headers = [], body = Text ''OAuth Error: access_denied''\<rparr>,
          world_complete)
   \<and> set corsHeaders \<inter> set (headers (projr (fst (fetch example_rt
        (example_request ''GET'' ''/callback'' [(''error'', ''access_denied'')]) world_complete))))
       = {}"
proof -
  let ?rq = "example_request ''GET'' ''/callback'' [(''error'', ''access_denied'')]"
  have h1: "http_method ?rq \<noteq> ''OPTIONS''" and h2: "pathname ?rq = ''/callback''"
    and h3: "map_of (searchParams ?rq) ''error'' = Some ''access_denied''"
    and h4: "''access_denied'' \<noteq> []"
    by (simp_all add: example_request_def)
  from callback_error_response_has_no_headers [OF h1 h2 h3 h4, of example_rt world_complete] h1 h2
  show ?thesis
    by simp
qed

subsection \<open>Authorization initiation\<close>

lemma charset_length: "length charset = 62"
  by (simp add: charset_def)

lemma charset_alnum: "list_all is_alnum charset"
  by (simp add: charset_def is_alnum_def)

lemma floor_index:
  fixes r :: real
  assumes "0 \<le> r" and "r < 1"
  shows "0 \<le> \<lfloor>r * 62\<rfloor> \<and> \<lfloor>r * 62\<rfloor> < 62"
proof -
  from assms have "r * 62 < 62"
    by simp
  then have "\<lfloor>r * 62\<rfloor> < 62"
    by (simp add: floor_less_iff)
  moreover from assms have "0 \<le> \<lfloor>r * 62\<rfloor>"
    by simp
  ultimately show ?thesis
    by blast
qed

lemma charAt_charset:
  assumes "0 \<le> r" and "r < 1"
  shows "\<exists>c. charAt charset \<lfloor>r * real (length charset)\<rfloor> = [c] \<and> is_alnum c"
proof -
  obtain k where k: "k = \<lfloor>r * 62\<rfloor>"
    by blast
  with floor_index [OF assms] have lo: "0 \<le> k" and hi: "k < 62"
    by simp_all
  then have n: "nat k < length charset"
    by (simp add: charset_length)
  with charset_alnum have "is_alnum (charset ! nat k)"
    by (simp add: list_all_length)
  moreover from lo hi have "charAt charset k = [charset ! nat k]"
    by (simp add: charAt_def charset_length)
  ultimately show ?thesis
    using k by (simp add: charset_length)
qed

lemma generateRandomString_loop_alnum:
  assumes "\<forall>j. i \<le> j \<and> j < len \<longrightarrow> 0 \<le> rnd j \<and> rnd j < 1"
    and "i \<le> len" and "list_all is_alnum acc"
  shows "length (generateRandomString_loop rnd len i acc) = length acc + (len - i)
       \<and> list_all is_alnum (generateRandomString_loop rnd len i acc)"
  using assms
proof (induction rnd len i acc rule: generateRandomString_loop.induct)
  case (1 rnd len i result)
  show ?case
  proof (cases "i < len")
    case True
    with "1.prems" have "0 \<le> rnd i" and "rnd i < 1"
      by auto
    then obtain c where c: "charAt charset \<lfloor>rnd i * real (length charset)\<rfloor> = [c]" "is_alnum c"
      using charAt_charset by blast
    from "1.prems" c have acc': "list_all is_alnum (result @ charAt charset \<lfloor>rnd i * real (length charset)\<rfloor>)"
      by simp
    from "1.prems" have rest: "\<forall>j. Suc i \<le> j \<and> j < len \<longrightarrow> 0 \<le> rnd j \<and> rnd j < 1"
      by auto
    from True have le: "Suc i \<le> len"
      by simp
    from "1.IH" [OF True rest le acc'] c True show ?thesis
      by (simp add: generateRandomString_loop.simps [of rnd len i])
  next
    case False
    then have "generateRandomString_loop rnd len i result = result"
      by (subst generateRandomString_loop.simps) simp
    with False "1.prems" show ?thesis
      by simp
  qed
qed

lemma generateRandomString_alnum:
  assumes "\<forall>j<n. 0 \<le> rnd j \<and> rnd j < 1"
  shows "length (generateRandomString rnd n) = n \<and> list_all is_alnum (generateRandomString rnd n)"
  using generateRandomString_loop_alnum [of 0 n rnd "[]"] assms
  by (simp add: generateRandomString_def)

lemma scope_encoded:
  "encodeURIComponent
     ''user-read-currently-playing user-read-recently-played user-read-playback-state''
   = ''user-read-currently-playing%20user-read-recently-played%20user-read-playback-state''"
  by (simp add: encodeURIComponent_def encode_byte_def uri_unreserved_def is_alnum_def
      hex_digit_def)

text \<open>
  C6. A POST to the setup route with a Credentials record stored, where the record's
  \<open>client_id\<close> is a string and every draw of \<open>Math.random\<close> lies in the interval from 0 to
  1 (1 excluded), generates a state of exactly 16 characters of \<open>[a-zA-Z0-9]\<close>, stores
  \<open>pending\<close> under \<open>oauth_state_<state>\<close> with a time-to-live of 600 seconds, and answers
  302 with the location \<open>https://accounts.spotify.com/authorize\<close> whose query has response
  type \<open>code\<close>, the stored client identifier, the three scopes, the encoded callback URL
  (the request's origin followed by \<open>/callback\<close>) and the state.
\<close>

theorem setup_post_redirects:
  assumes "http_method rq = ''POST''"
    and "kv_read rt (kv w) ''spotify_credentials'' = Some cj" and "cj \<noteq> []"
    and "JSON_parse rt cj = Some credentials" and "truthy credentials"
    and "get_prop credentials ''client_id'' = Some (JStr cid)"
    and "\<forall>i<16. 0 \<le> Math_random rt i \<and> Math_random rt i < 1"
    and "state = generateRandomString (Math_random rt) 16"
  shows "length state = 16 \<and> list_all is_alnum state
       \<and> handleSetup rt rq w
           = (Inr \<lparr>status = 302,
                   headers = [(''Location'',
                     ''https://accounts.spotify.com/authorize?response_type=code''
                     @ ''&client_id='' @ cid
                     @ ''&scope=user-read-currently-playing%20user-read-recently-played%20user-read-playback-state''
                     @ ''&redirect_uri='' @ encodeURIComponent (origin rq @ ''/callback'')
                     @ ''&state='' @ state)],
                   body = NoBody\<rparr>,
              w\<lparr>kv := (kv w)(''oauth_state_'' @ state \<mapsto> (''pending'', Some (now rt + 600))),
                trace := trace w @ [KVGet ''spotify_credentials'',
                                    KVPut (''oauth_state_'' @ state) ''pending'' (Some 600)]\<rparr>)"
proof -
  from assms(7,8) have "length state = 16 \<and> list_all is_alnum state"
    using generateRandomString_alnum [of 16 "Math_random rt"] by simp
  moreover from assms(1-6,8) have "handleSetup rt rq w
           = (Inr \<lparr>status = 302,
                   headers = [(''Location'',
                     ''https://accounts.spotify.com/authorize?response_type=code''
                     @ ''&client_id='' @ cid
                     @ ''&scope=user-read-currently-playing%20user-read-recently-played%20user-read-playback-state''
                     @ ''&redirect_uri='' @ encodeURIComponent (origin rq @ ''/callback'')
                     @ ''&state='' @ state)],
                   body = NoBody\<rparr>,
              w\<lparr>kv := (kv w)(''oauth_state_'' @ state \<mapsto> (''pending'', Some (now rt + 600))),
                trace := trace w @ [KVGet ''spotify_credentials'',
                                    KVPut (''oauth_state_'' @ state) ''pending'' (Some 600)]\<rparr>)"
    by (simp add: handleSetup_def getStoredCredentials_present bind_io_Inr kv_put_def
        redirect_def Let_def scope_encoded)
  ultimately show ?thesis
    by blast
qed

theorem setup_post_redirects_witness:
  "kv_read example_rt (kv world_credentials_only) ''spotify_credentials'' = Some credentials_text
   \<and> JSON_parse example_rt credentials_text = Some example_credentials
   \<and> get_prop example_credentials ''client_id'' = Some (JStr ''0123456789abcdef0123456789abcdef'')
   \<and> generateRandomString (Math_random example_rt) 16 = ''APfuAPfuAPfuAPfu''
   \<and> handleSetup example_rt (example_request ''POST'' ''/setup'' []) world_credentials_only
       = (Inr \<lparr>status = 302,
               headers = [(''Location'',
                 ''https://accounts.spotify.com/authorize?response_type=code&client_id=0123456789abcdef0123456789abcdef&scope=user-read-currently-playing%20user-read-recently-played%20user-read-playback-state&redirect_uri=https%3A%2F%2Fproxy.example.workers.dev%2Fcallback&state=APfuAPfuAPfuAPfu'')],
               body = NoBody\<rparr>,
          \<lparr>kv = [''spotify_credentials'' \<mapsto> (credentials_text, None),
                 ''oauth_state_APfuAPfuAPfuAPfu'' \<mapsto> (''pending'', Some 1600)],
           trace = [KVGet ''spotify_credentials'',
                    KVPut ''oauth_state_APfuAPfuAPfuAPfu'' ''pending'' (Some 600)]\<rparr>)"
proof -
  let ?rq = "example_request ''POST'' ''/setup'' []"
  have h1: "http_method ?rq = ''POST''"
    by (simp add: example_request_def)
  have h2: "kv_read example_rt (kv world_credentials_only) ''spotify_credentials''
      = Some credentials_text"
    by (simp add: kv_read_def live_def world_credentials_only_def)
  have h3: "credentials_text \<noteq> []"
    by (simp add: credentials_text_def)
  have h4: "JSON_parse example_rt credentials_text = Some example_credentials"
    by (simp add: example_rt_def example_parse_def)
  have h5: "truthy example_credentials"
    by (simp add: example_credentials_def)
  have h6: "get_prop example_credentials ''client_id''
      = Some (JStr ''0123456789abcdef0123456789abcdef'')"
    by (simp add: example_credentials_def)
  have h7: "\<forall>i<16. 0 \<le> Math_random example_rt i \<and> Math_random example_rt i < 1"
    by (simp add: example_rt_def)
  have h8: "''APfuAPfuAPfuAPfu'' = generateRandomString (Math_random example_rt) 16"
    by (simp add: generateRandomString_def generateRandomString_loop.simps example_rt_def
        charAt_def charset_def)
  have e: "encodeURIComponent (origin ?rq @ ''/callback'')
      = ''https%3A%2F%2Fproxy.example.workers.dev%2Fcallback''"
    by (simp add: example_request_def encodeURIComponent_def encode_byte_def
        uri_unreserved_def is_alnum_def hex_digit_def)
  have n: "now example_rt + 600 = 1600"
    by (simp add: example_rt_def)
  have w: "world_credentials_only\<lparr>kv := (kv world_credentials_only)
              (''oauth_state_'' @ ''APfuAPfuAPfuAPfu'' \<mapsto> (''pending'', Some 1600)),
            trace := trace world_credentials_only @ [KVGet ''spotify_credentials'',
              KVPut (''oauth_state_'' @ ''APfuAPfuAPfuAPfu'') ''pending'' (Some 600)]\<rparr>
      = \<lparr>kv = [''spotify_credentials'' \<mapsto> (credentials_text, None),
                 ''oauth_state_APfuAPfuAPfuAPfu'' \<mapsto> (''pending'', Some 1600)],
           trace = [KVGet ''spotify_credentials'',
                    KVPut ''oauth_state_APfuAPfuAPfuAPfu'' ''pending'' (Some 600)]\<rparr>"
    by (simp add: world_credentials_only_def)
  from setup_post_redirects [OF h1 h2 h3 h4 h5 h6 h7 h8]
  have "handleSetup example_rt ?rq world_credentials_only
           = (Inr \<lparr>status = 302,
                   headers = [(''Location'',
                     ''https://accounts.spotify.com/authorize?response_type=code''
                     @ ''&client_id='' @ ''0123456789abcdef0123456789abcdef''
                     @ ''&scope=user-read-currently-playing%20user-read-recently-played%20user-read-playback-state''
                     @ ''&redirect_uri='' @ encodeURIComponent (origin ?rq @ ''/callback'')
                     @ ''&state='' @ ''APfuAPfuAPfuAPfu'')],
                   body = NoBody\<rparr>,
              world_credentials_only\<lparr>kv := (kv world_credentials_only)
                  (''oauth_state_'' @ ''APfuAPfuAPfuAPfu'' \<mapsto> (''pending'', Some (now example_rt + 600))),
                trace := trace world_credentials_only @ [KVGet ''spotify_credentials'',
                  KVPut (''oauth_state_'' @ ''APfuAPfuAPfuAPfu'') ''pending'' (Some 600)]\<rparr>)"
    by blast
  then have r: "handleSetup example_rt ?rq world_credentials_only
       = (Inr \<lparr>status = 302,
               headers = [(''Location'',
                 ''https://accounts.spotify.com/authorize?response_type=code&client_id=0123456789abcdef0123456789abcdef&scope=user-read-currently-playing%20user-read-recently-played%20user-read-playback-state&redirect_uri=https%3A%2F%2Fproxy.example.workers.dev%2Fcallback&state=APfuAPfuAPfuAPfu'')],
               body = NoBody\<rparr>,
          \<lparr>kv = [''spotify_credentials'' \<mapsto> (credentials_text, None),
                 ''oauth_state_APfuAPfuAPfuAPfu'' \<mapsto> (''pending'', Some 1600)],
           trace = [KVGet ''spotify_credentials'',
                    KVPut ''oauth_state_APfuAPfuAPfuAPfu'' ''pending'' (Some 600)]\<rparr>)"
    unfolding e n w by simp
  from h2 h4 h6 h8 [symmetric] r show ?thesis
    by blast
qed

subsection \<open>Setup status\<close>

lemma setupStatus_table:
  "setupStatus c t
     = (status_name (status_spec c t), fst (next_action (status_spec c t)),
        snd (next_action (status_spec c t)))"
  by (cases c; cases t) (simp_all add: setupStatus_def status_spec_def)

lemma health_table:
  "get_prop (health rt c t) ''setup_complete'' = Some (JBool (status_spec c t = COMPLETE))"
  "get_prop (health rt c t) ''next_step'' = Some (JStr (next_step (status_spec c t)))"
  by (cases c; cases t; simp add: health_def status_spec_def)+

lemma null_or_object_truthy: "null_or_object v \<Longrightarrow> truthy v = (v \<noteq> JNull)"
  by (cases v) simp_all

text \<open>
  C1. The status block of the root handler and the health object are functions of the two
  presence flags alone, and agree with the table of the specification: the root handler's
  status, link and link text are those of \<open>status_spec\<close>, and the health object's
  \<open>setup_complete\<close> and \<open>next_step\<close> are those of \<open>status_spec\<close>. On a store whose two
  records are read back as \<open>null\<close> or as a JSON object, both handlers classify by the same
  pair (record present, record present): the root page shows the status of the table and
  the health report is the health object of that pair.
\<close>

theorem setup_status_classification:
  "setupStatus cp tp
     = (status_name (status_spec cp tp), fst (next_action (status_spec cp tp)),
        snd (next_action (status_spec cp tp)))
   \<and> get_prop (health rt cp tp) ''setup_complete'' = Some (JBool (status_spec cp tp = COMPLETE))
   \<and> get_prop (health rt cp tp) ''next_step'' = Some (JStr (next_step (status_spec cp tp)))
   \<and> (getStoredCredentials rt w = (Inr c, w1) \<and> getStoredTokens rt w1 = (Inr t, w2)
        \<and> null_or_object c \<and> null_or_object t \<longrightarrow>
        handleRoot rt rq w
          = (Inr \<lparr>status = 200, headers = html_headers,
                  body = Html (RootPage
                    (status_name (status_spec (c \<noteq> JNull) (t \<noteq> JNull)))
                    (fst (next_action (status_spec (c \<noteq> JNull) (t \<noteq> JNull))))
                    (snd (next_action (status_spec (c \<noteq> JNull) (t \<noteq> JNull)))))\<rparr>, w2)
        \<and> handleHealth rt rq w
          = (Inr \<lparr>status = 200, headers = json_headers,
                  body = Text (JSON_stringify_pretty rt
                           (health rt (c \<noteq> JNull) (t \<noteq> JNull)))\<rparr>, w2))"
  by (simp add: setupStatus_table health_table handleRoot_def handleHealth_def bind_io_Inr
      null_or_object_truthy Let_def split_def)

theorem setup_status_classification_witness:
  "setupStatus False False = (''not_started'', ''/credentials'', ''Setup Credentials'')
   \<and> setupStatus False True = (''not_started'', ''/credentials'', ''Setup Credentials'')
   \<and> setupStatus True False = (''credentials_only'', ''/setup'', ''Connect Spotify Account'')
   \<and> setupStatus True True = (''complete'', ''/now-playing'', ''View Now Playing'')
   \<and> get_prop (health example_rt True False) ''next_step''
       = Some (JStr ''Complete OAuth setup at /setup'')
   \<and> getStoredCredentials example_rt world_credentials_only
       = (Inr example_credentials,
          world_credentials_only\<lparr>trace := [KVGet ''spotify_credentials'']\<rparr>)
   \<and> getStoredTokens example_rt (world_credentials_only\<lparr>trace := [KVGet ''spotify_credentials'']\<rparr>)
       = (Inr JNull,
          world_credentials_only\<lparr>trace := [KVGet ''spotify_credentials'', KVGet ''spotify_tokens'']\<rparr>)
   \<and> handleRoot example_rt (example_request ''GET'' ''/'' []) world_credentials_only
       = (Inr \<lparr>status = 200, headers = html_headers,
               body = Html (RootPage ''credentials_only'' ''/setup'' ''Connect Spotify Account'')\<rparr>,
          world_credentials_only\<lparr>trace := [KVGet ''spotify_credentials'', KVGet ''spotify_tokens'']\<rparr>)
   \<and> handleHealth example_rt (example_request ''GET'' ''/health'' []) world_credentials_only
       = (Inr \<lparr>status = 200, headers = json_headers,
               body = Text (JSON_stringify_pretty example_rt (health example_rt True False))\<rparr>,
          world_credentials_only\<lparr>trace := [KVGet ''spotify_credentials'', KVGet ''spotify_tokens'']\<rparr>)"
proof -
  let ?w1 = "world_credentials_only\<lparr>trace := [KVGet ''spotify_credentials'']\<rparr>"
  let ?w2 = "world_credentials_only\<lparr>trace := [KVGet ''spotify_credentials'', KVGet ''spotify_tokens'']\<rparr>"
  have g1: "getStoredCredentials example_rt world_credentials_only = (Inr example_credentials, ?w1)"
    by (simp add: getStoredCredentials_def parse_stored_def bind_io_def kv_get_def kv_read_def
        live_def example_rt_def example_parse_def world_credentials_only_def
        credentials_text_def)
  have g2: "getStoredTokens example_rt ?w1 = (Inr JNull, ?w2)"
    by (simp add: getStoredTokens_def parse_stored_def bind_io_def kv_get_def kv_read_def
        world_credentials_only_def)
  have o1: "null_or_object example_credentials" and o2: "null_or_object JNull"
    and n1: "example_credentials \<noteq> JNull"
    by (simp_all add: example_credentials_def)
  note t = setup_status_classification
  from t [of False False example_rt]
  have a: "setupStatus False False = (''not_started'', ''/credentials'', ''Setup Credentials'')"
    by (simp add: status_spec_def)
  from t [of False True example_rt]
  have b: "setupStatus False True = (''not_started'', ''/credentials'', ''Setup Credentials'')"
    by (simp add: status_spec_def)
  from t [of True True example_rt]
  have d: "setupStatus True True = (''complete'', ''/now-playing'', ''View Now Playing'')"
    by (simp add: status_spec_def)
  from t [of True False example_rt world_credentials_only example_credentials ?w1 JNull ?w2
      "example_request ''GET'' ''/'' []"] g1 g2 o1 o2 n1
  have c: "setupStatus True False = (''credentials_only'', ''/setup'', ''Connect Spotify Account'')"
    and e: "get_prop (health example_rt True False) ''next_step''
       = Some (JStr ''Complete OAuth setup at /setup'')"
    and f: "handleRoot example_rt (example_request ''GET'' ''/'' []) world_credentials_only
       = (Inr \<lparr>status = 200, headers = html_headers,
               body = Html (RootPage ''credentials_only'' ''/setup'' ''Connect Spotify Account'')\<rparr>,
          ?w2)"
    by (simp_all add: status_spec_def)
  from t [of True False example_rt world_credentials_only example_credentials ?w1 JNull ?w2
      "example_request ''GET'' ''/health'' []"] g1 g2 o1 o2 n1
  have h: "handleHealth example_rt (example_request ''GET'' ''/health'' []) world_credentials_only
       = (Inr \<lparr>status = 200, headers = json_headers,
               body = Text (JSON_stringify_pretty example_rt (health example_rt True False))\<rparr>,
          ?w2)"
    by simp
  from a b c d e g1 g2 f h show ?thesis
    by blast
qed

end
